theory Spec2Isabelle
  imports Main
begin

section \<open>Values thrown by JavaScript code\<close>

text \<open>
  A promise of the facade or of the native module either resolves with a value or rejects
  with a thrown value. A thrown value is an instance of \<^verbatim>\<open>Error\<close> (of the class
  \<open>ctor\<close>, which is \<^verbatim>\<open>Error\<close> itself or a subclass, with its \<open>message\<close>), or
  it is any other value, kept as the string that \<^verbatim>\<open>String(...)\<close> gives for it.
  An asynchronous call is modelled by its settled promise: \<open>Inl\<close> is a rejection,
  \<open>Inr\<close> a resolution. Calls run one after the other, each awaited before the next.
\<close>

datatype js_thrown =
    ErrorInstance (ctor: string) (message: string)
  | NonError (rendered: string)

definition new_Error :: "string \<Rightarrow> js_thrown" where
  "new_Error msg = ErrorInstance ''Error'' msg"

text \<open>\<^verbatim>\<open>error instanceof Error ? error.message : String(error)\<close>\<close>

definition error_text :: "js_thrown \<Rightarrow> string" where
  "error_text error = (case error of ErrorInstance c m \<Rightarrow> m | NonError s \<Rightarrow> s)"

section \<open>Types of the facade\<close>

text \<open>
  \<^verbatim>\<open>MSALConfiguration\<close>, \<^verbatim>\<open>MSALInteractiveParams\<close>, \<^verbatim>\<open>MSALSilentParams\<close>,
  \<^verbatim>\<open>MSALResult\<close> and \<^verbatim>\<open>MSALAccount\<close> are declared in \<^verbatim>\<open>./types\<close>; the facade
  never looks inside them, so they are the type parameters \<open>'cfg\<close>, \<open>'ip\<close>, \<open>'sp\<close>,
  \<open>'res\<close> and \<open>'acct\<close>.
\<close>

text \<open>
  Modelled from the spec: the declaration of \<^verbatim>\<open>MSALSignoutParams\<close> in \<^verbatim>\<open>./types\<close>,
  which is not among the sources. The record has the field the facade reads
  (\<^verbatim>\<open>params.account\<close>) and the field the repository's guides pass
  (\<^verbatim>\<open>signoutFromBrowser\<close>, optional); the extension of the record stands for every
  further field.
\<close>

record 'acct MSALSignoutParams =
  account :: 'acct
  signoutFromBrowser :: "bool option"

text \<open>The calls that reach the native module, with their arguments.\<close>

datatype ('cfg, 'ip, 'sp, 'acct, 'so) native_call =
    CreatePublicClientApplication 'cfg
  | AcquireToken 'ip
  | AcquireTokenSilent 'sp
  | GetAccounts
  | GetAccount string
  | RemoveAccount 'acct
  | Signout 'so

text \<open>
  \<^verbatim>\<open>RNMSALNativeModule\<close> of \<^verbatim>\<open>nativeModule.ts\<close>. The native module is outside the
  repository: each of its operations is a parameter. What an operation answers may depend
  on its argument and on every call the module has received before, so each operation
  takes that history first. A promise of \<^verbatim>\<open>T | undefined\<close> resolves with an option.
\<close>

record ('cfg, 'ip, 'sp, 'res, 'acct, 'so) RNMSALNativeModule =
  RNMSAL_createPublicClientApplication ::
    "('cfg, 'ip, 'sp, 'acct, 'so) native_call list \<Rightarrow> 'cfg \<Rightarrow> js_thrown + unit"
  RNMSAL_acquireToken ::
    "('cfg, 'ip, 'sp, 'acct, 'so) native_call list \<Rightarrow> 'ip \<Rightarrow> js_thrown + 'res option"
  RNMSAL_acquireTokenSilent ::
    "('cfg, 'ip, 'sp, 'acct, 'so) native_call list \<Rightarrow> 'sp \<Rightarrow> js_thrown + 'res option"
  RNMSAL_getAccounts ::
    "('cfg, 'ip, 'sp, 'acct, 'so) native_call list \<Rightarrow> js_thrown + 'acct list"
  RNMSAL_getAccount ::
    "('cfg, 'ip, 'sp, 'acct, 'so) native_call list \<Rightarrow> string \<Rightarrow> js_thrown + 'acct option"
  RNMSAL_removeAccount ::
    "('cfg, 'ip, 'sp, 'acct, 'so) native_call list \<Rightarrow> 'acct \<Rightarrow> js_thrown + bool"
  RNMSAL_signout ::
    "('cfg, 'ip, 'sp, 'acct, 'so) native_call list \<Rightarrow> 'so \<Rightarrow> js_thrown + bool"

text \<open>The fields of a \<^verbatim>\<open>PublicClientApplication\<close> object.\<close>

record 'cfg PublicClientApplication =
  isInitialized :: bool
  config :: 'cfg

text \<open>
  Objects live in a store, addressed by references, so that \<^verbatim>\<open>return this\<close> returns
  the reference the method was called on. The world is the store together with the list of
  the calls the native module has received so far, oldest first.
\<close>

type_synonym ref = nat

record ('cfg, 'ip, 'sp, 'acct, 'so) world =
  heap :: "ref \<Rightarrow> 'cfg PublicClientApplication"
  calls :: "('cfg, 'ip, 'sp, 'acct, 'so) native_call list"

text \<open>
  \<^verbatim>\<open>Platform.OS\<close> and \<^verbatim>\<open>Platform.select\<close> of react-native, for a selection that has
  the keys \<^verbatim>\<open>ios\<close> and \<^verbatim>\<open>default\<close> only: the \<^verbatim>\<open>ios\<close> entry on iOS, the
  \<^verbatim>\<open>default\<close> entry everywhere else.
\<close>

datatype PlatformOS = ios | android | macos | windows | web

definition Platform_select :: "PlatformOS \<Rightarrow> 'a \<Rightarrow> 'a \<Rightarrow> 'a" where
  "Platform_select os ios_entry default_entry = (if os = ios then ios_entry else default_entry)"

section \<open>nativeModule.ts\<close>

text \<open>
  The value of \<^verbatim>\<open>NativeModules.RNMSAL\<close> is the module or nothing. Evaluating
  \<^verbatim>\<open>nativeModule.ts\<close> throws when it is nothing and exports it otherwise.
\<close>

definition nativeModule :: "'m option \<Rightarrow> js_thrown + 'm" where
  "nativeModule NativeModules_RNMSAL =
     (case NativeModules_RNMSAL of
        None \<Rightarrow> Inl (new_Error
          (''Native module RNMSAL is not available. '' @
           ''Please ensure you have linked the native module correctly. '' @
           ''Run: npx react-native link react-native-msal (or use Expo config plugin for Expo projects)''))
      | Some RNMSAL \<Rightarrow> Inr RNMSAL)"

section \<open>publicClientApplication.native.ts\<close>

text \<open>The constructor, allocating the object at the reference \<open>r\<close>.\<close>

definition new_PublicClientApplication ::
  "'cfg \<Rightarrow> ref \<Rightarrow> ('cfg, 'ip, 'sp, 'acct, 'so) world \<Rightarrow> ('cfg, 'ip, 'sp, 'acct, 'so) world" where
  "new_PublicClientApplication cfg r w =
     w\<lparr>heap := (heap w)(r := \<lparr>isInitialized = False, config = cfg\<rparr>)\<rparr>"

definition validateIsInitialized :: "'cfg PublicClientApplication \<Rightarrow> js_thrown + unit" where
  "validateIsInitialized this =
     (if \<not> isInitialized this
      then Inl (new_Error
        (''PublicClientApplication is not initialized. '' @
         ''You must call the `init` method before any other method.''))
      else Inr ())"

text \<open>A call of the native module is appended to the list of calls.\<close>

definition called ::
  "('cfg, 'ip, 'sp, 'acct, 'so) native_call \<Rightarrow> ('cfg, 'ip, 'sp, 'acct, 'so) world
     \<Rightarrow> ('cfg, 'ip, 'sp, 'acct, 'so) world" where
  "called c w = w\<lparr>calls := calls w @ [c]\<rparr>"

definition init ::
  "('cfg, 'ip, 'sp, 'res, 'acct, 'so) RNMSALNativeModule \<Rightarrow> ref
     \<Rightarrow> ('cfg, 'ip, 'sp, 'acct, 'so) world
     \<Rightarrow> (js_thrown + ref) \<times> ('cfg, 'ip, 'sp, 'acct, 'so) world" where
  "init RNMSAL this w =
     (if \<not> isInitialized (heap w this)
      then
        (case RNMSAL_createPublicClientApplication RNMSAL (calls w) (config (heap w this)) of
           Inr u \<Rightarrow>
             (Inr this,
              (called (CreatePublicClientApplication (config (heap w this))) w)
                \<lparr>heap := (heap w)(this := (heap w this)\<lparr>isInitialized := True\<rparr>)\<rparr>)
         | Inl error \<Rightarrow>
             (Inl (new_Error
                (''Failed to initialize PublicClientApplication: '' @ error_text error @ ''. '' @
                 ''Ensure the native MSAL module is properly linked and configured.'')),
              called (CreatePublicClientApplication (config (heap w this))) w))
      else (Inr this, w))"

definition acquireToken ::
  "('cfg, 'ip, 'sp, 'res, 'acct, 'so) RNMSALNativeModule \<Rightarrow> ref \<Rightarrow> 'ip
     \<Rightarrow> ('cfg, 'ip, 'sp, 'acct, 'so) world
     \<Rightarrow> (js_thrown + 'res option) \<times> ('cfg, 'ip, 'sp, 'acct, 'so) world" where
  "acquireToken RNMSAL this params w =
     (case validateIsInitialized (heap w this) of
        Inl e \<Rightarrow> (Inl e, w)
      | Inr u \<Rightarrow> (RNMSAL_acquireToken RNMSAL (calls w) params, called (AcquireToken params) w))"

definition acquireTokenSilent ::
  "('cfg, 'ip, 'sp, 'res, 'acct, 'so) RNMSALNativeModule \<Rightarrow> ref \<Rightarrow> 'sp
     \<Rightarrow> ('cfg, 'ip, 'sp, 'acct, 'so) world
     \<Rightarrow> (js_thrown + 'res option) \<times> ('cfg, 'ip, 'sp, 'acct, 'so) world" where
  "acquireTokenSilent RNMSAL this params w =
     (case validateIsInitialized (heap w this) of
        Inl e \<Rightarrow> (Inl e, w)
      | Inr u \<Rightarrow>
          (RNMSAL_acquireTokenSilent RNMSAL (calls w) params,
           called (AcquireTokenSilent params) w))"

definition getAccounts ::
  "('cfg, 'ip, 'sp, 'res, 'acct, 'so) RNMSALNativeModule \<Rightarrow> ref
     \<Rightarrow> ('cfg, 'ip, 'sp, 'acct, 'so) world
     \<Rightarrow> (js_thrown + 'acct list) \<times> ('cfg, 'ip, 'sp, 'acct, 'so) world" where
  "getAccounts RNMSAL this w =
     (case validateIsInitialized (heap w this) of
        Inl e \<Rightarrow> (Inl e, w)
      | Inr u \<Rightarrow> (RNMSAL_getAccounts RNMSAL (calls w), called GetAccounts w))"

definition getAccount ::
  "('cfg, 'ip, 'sp, 'res, 'acct, 'so) RNMSALNativeModule \<Rightarrow> ref \<Rightarrow> string
     \<Rightarrow> ('cfg, 'ip, 'sp, 'acct, 'so) world
     \<Rightarrow> (js_thrown + 'acct option) \<times> ('cfg, 'ip, 'sp, 'acct, 'so) world" where
  "getAccount RNMSAL this accountIdentifier w =
     (case validateIsInitialized (heap w this) of
        Inl e \<Rightarrow> (Inl e, w)
      | Inr u \<Rightarrow>
          (RNMSAL_getAccount RNMSAL (calls w) accountIdentifier,
           called (GetAccount accountIdentifier) w))"

definition removeAccount ::
  "('cfg, 'ip, 'sp, 'res, 'acct, 'so) RNMSALNativeModule \<Rightarrow> ref \<Rightarrow> 'acct
     \<Rightarrow> ('cfg, 'ip, 'sp, 'acct, 'so) world
     \<Rightarrow> (js_thrown + bool) \<times> ('cfg, 'ip, 'sp, 'acct, 'so) world" where
  "removeAccount RNMSAL this acct w =
     (case validateIsInitialized (heap w this) of
        Inl e \<Rightarrow> (Inl e, w)
      | Inr u \<Rightarrow> (RNMSAL_removeAccount RNMSAL (calls w) acct, called (RemoveAccount acct) w))"

definition signOut ::
  "('cfg, 'ip, 'sp, 'res, 'acct, ('acct, 'z) MSALSignoutParams_scheme) RNMSALNativeModule
     \<Rightarrow> PlatformOS \<Rightarrow> ref \<Rightarrow> ('acct, 'z) MSALSignoutParams_scheme
     \<Rightarrow> ('cfg, 'ip, 'sp, 'acct, ('acct, 'z) MSALSignoutParams_scheme) world
     \<Rightarrow> (js_thrown + bool)
         \<times> ('cfg, 'ip, 'sp, 'acct, ('acct, 'z) MSALSignoutParams_scheme) world" where
  "signOut RNMSAL os this params w =
     (case validateIsInitialized (heap w this) of
        Inl e \<Rightarrow> (Inl e, w)
      | Inr u \<Rightarrow>
          (Platform_select os
             (\<lambda>w. (RNMSAL_signout RNMSAL (calls w) params, called (Signout params) w))
             (\<lambda>w. (RNMSAL_removeAccount RNMSAL (calls w) (account params),
                    called (RemoveAccount (account params)) w)))
            w)"

section \<open>Sequences of calls\<close>

text \<open>
  A consumer of the facade calls its public methods, on any of its instances, one after the
  other. A call names the method and its arguments; its outcome is the settled promise.
\<close>

datatype ('ip, 'sp, 'acct, 'so) facade_call =
    Call_init
  | Call_acquireToken 'ip
  | Call_acquireTokenSilent 'sp
  | Call_getAccounts
  | Call_getAccount string
  | Call_removeAccount 'acct
  | Call_signOut 'so

datatype ('res, 'acct) returned =
    Returned_this ref
  | Returned_result "'res option"
  | Returned_accounts "'acct list"
  | Returned_account "'acct option"
  | Returned_bool bool

definition settled ::
  "('a \<Rightarrow> ('res, 'acct) returned) \<Rightarrow> (js_thrown + 'a) \<times> 'w
     \<Rightarrow> (js_thrown + ('res, 'acct) returned) \<times> 'w" where
  "settled f p = (case fst p of Inl e \<Rightarrow> (Inl e, snd p) | Inr v \<Rightarrow> (Inr (f v), snd p))"

definition invoke ::
  "('cfg, 'ip, 'sp, 'res, 'acct, ('acct, 'z) MSALSignoutParams_scheme) RNMSALNativeModule
     \<Rightarrow> PlatformOS
     \<Rightarrow> ref \<times> ('ip, 'sp, 'acct, ('acct, 'z) MSALSignoutParams_scheme) facade_call
     \<Rightarrow> ('cfg, 'ip, 'sp, 'acct, ('acct, 'z) MSALSignoutParams_scheme) world
     \<Rightarrow> (js_thrown + ('res, 'acct) returned)
         \<times> ('cfg, 'ip, 'sp, 'acct, ('acct, 'z) MSALSignoutParams_scheme) world" where
  "invoke RNMSAL os c w =
     (case snd c of
        Call_init \<Rightarrow> settled Returned_this (init RNMSAL (fst c) w)
      | Call_acquireToken params \<Rightarrow>
          settled Returned_result (acquireToken RNMSAL (fst c) params w)
      | Call_acquireTokenSilent params \<Rightarrow>
          settled Returned_result (acquireTokenSilent RNMSAL (fst c) params w)
      | Call_getAccounts \<Rightarrow> settled Returned_accounts (getAccounts RNMSAL (fst c) w)
      | Call_getAccount accountIdentifier \<Rightarrow>
          settled Returned_account (getAccount RNMSAL (fst c) accountIdentifier w)
      | Call_removeAccount acct \<Rightarrow>
          settled Returned_bool (removeAccount RNMSAL (fst c) acct w)
      | Call_signOut params \<Rightarrow> settled Returned_bool (signOut RNMSAL os (fst c) params w))"

fun run ::
  "('cfg, 'ip, 'sp, 'res, 'acct, ('acct, 'z) MSALSignoutParams_scheme) RNMSALNativeModule
     \<Rightarrow> PlatformOS
     \<Rightarrow> (ref \<times> ('ip, 'sp, 'acct, ('acct, 'z) MSALSignoutParams_scheme) facade_call) list
     \<Rightarrow> ('cfg, 'ip, 'sp, 'acct, ('acct, 'z) MSALSignoutParams_scheme) world
     \<Rightarrow> (js_thrown + ('res, 'acct) returned) list
         \<times> ('cfg, 'ip, 'sp, 'acct, ('acct, 'z) MSALSignoutParams_scheme) world" where
  "run RNMSAL os [] w = ([], w)"
| "run RNMSAL os (c # cs) w =
     (case invoke RNMSAL os c w of
        (x, w1) \<Rightarrow> (case run RNMSAL os cs w1 of (xs, w2) \<Rightarrow> (x # xs, w2)))"

text \<open>
  The number of calls of a sequence over which the flag of the object \<open>r\<close> goes from
  false to true.
\<close>

fun times_set ::
  "('cfg, 'ip, 'sp, 'res, 'acct, ('acct, 'z) MSALSignoutParams_scheme) RNMSALNativeModule
     \<Rightarrow> PlatformOS \<Rightarrow> ref
     \<Rightarrow> (ref \<times> ('ip, 'sp, 'acct, ('acct, 'z) MSALSignoutParams_scheme) facade_call) list
     \<Rightarrow> ('cfg, 'ip, 'sp, 'acct, ('acct, 'z) MSALSignoutParams_scheme) world
     \<Rightarrow> nat" where
  "times_set RNMSAL os r [] w = 0"
| "times_set RNMSAL os r (c # cs) w =
     (if \<not> isInitialized (heap w r) \<and> isInitialized (heap (snd (invoke RNMSAL os c w)) r)
      then 1 else 0)
     + times_set RNMSAL os r cs (snd (invoke RNMSAL os c w))"

text \<open>
  A program that imports \<^verbatim>\<open>publicClientApplication.native.ts\<close> and then makes a sequence
  of calls. The import evaluates \<^verbatim>\<open>nativeModule.ts\<close> first; when that throws, the import
  throws and nothing after it runs.
\<close>

definition program ::
  "('cfg, 'ip, 'sp, 'res, 'acct, ('acct, 'z) MSALSignoutParams_scheme) RNMSALNativeModule option
     \<Rightarrow> PlatformOS
     \<Rightarrow> (ref \<times> ('ip, 'sp, 'acct, ('acct, 'z) MSALSignoutParams_scheme) facade_call) list
     \<Rightarrow> ('cfg, 'ip, 'sp, 'acct, ('acct, 'z) MSALSignoutParams_scheme) world
     \<Rightarrow> (js_thrown + (js_thrown + ('res, 'acct) returned) list)
         \<times> ('cfg, 'ip, 'sp, 'acct, ('acct, 'z) MSALSignoutParams_scheme) world" where
  "program NativeModules_RNMSAL os script w =
     (case nativeModule NativeModules_RNMSAL of
        Inl e \<Rightarrow> (Inl e, w)
      | Inr RNMSAL \<Rightarrow> (case run RNMSAL os script w of (xs, w1) \<Rightarrow> (Inr xs, w1)))"

text \<open>The two messages of the facade's own errors.\<close>

definition not_initialized_message :: string where
  "not_initialized_message =
     ''PublicClientApplication is not initialized. You must call the `init` method before any other method.''"

definition initialization_failed_message :: "string \<Rightarrow> string" where
  "initialization_failed_message provider_message =
     ''Failed to initialize PublicClientApplication: '' @ provider_message @
     ''. Ensure the native MSAL module is properly linked and configured.''"

section \<open>An example native module\<close>

text \<open>
  A native module to run the facade on: with \<open>flaky\<close>, setup is rejected while the module
  has received no call yet, and succeeds from then on. An interactive request for no scope
  is aborted by the user; there is never a cached session for a silent request.
\<close>

definition example_native ::
  "bool \<Rightarrow> (string, string list, string, string, string, string MSALSignoutParams)
     RNMSALNativeModule" where
  "example_native flaky =
     \<lparr>RNMSAL_createPublicClientApplication =
        (\<lambda>history cfg. if flaky \<and> history = []
                        then Inl (ErrorInstance ''Error'' ''no broker'') else Inr ()),
      RNMSAL_acquireToken =
        (\<lambda>history params. if params = [] then Inr None else Inr (Some ''tok1'')),
      RNMSAL_acquireTokenSilent =
        (\<lambda>history params. Inl (ErrorInstance ''MSALError'' ''no cached session'')),
      RNMSAL_getAccounts = (\<lambda>history. Inr []),
      RNMSAL_getAccount = (\<lambda>history accountIdentifier. Inr None),
      RNMSAL_removeAccount = (\<lambda>history acct. Inr True),
      RNMSAL_signout = (\<lambda>history params. Inr False)\<rparr>"

text \<open>A world without calls, and the same world after \<^verbatim>\<open>new PublicClientApplication("abc")\<close>.\<close>

definition example_world ::
  "(string, string list, string, string, string MSALSignoutParams) world" where
  "example_world = \<lparr>heap = (\<lambda>r. \<lparr>isInitialized = False, config = []\<rparr>), calls = []\<rparr>"

definition example_fresh ::
  "(string, string list, string, string, string MSALSignoutParams) world" where
  "example_fresh = new_PublicClientApplication ''abc'' 0 example_world"

section \<open>Basic facts\<close>

lemma validateIsInitialized_false:
  "\<not> isInitialized this \<Longrightarrow>
   validateIsInitialized this = Inl (new_Error not_initialized_message)"
  by (simp add: validateIsInitialized_def not_initialized_message_def)

lemma validateIsInitialized_true:
  "isInitialized this \<Longrightarrow> validateIsInitialized this = Inr ()"
  by (simp add: validateIsInitialized_def)

lemma heap_called [simp]: "heap (called c w) = heap w"
  by (simp add: called_def)

lemma calls_called [simp]: "calls (called c w) = calls w @ [c]"
  by (simp add: called_def)

lemma snd_settled [simp]: "snd (settled f p) = snd p"
  by (simp add: settled_def split: sum.splits)

lemma isl_settled [simp]: "isl (fst (settled f p)) = isl (fst p)"
  by (simp add: settled_def split: sum.splits)

lemma init_keeps_flag:
  "isInitialized (heap w r) \<Longrightarrow> isInitialized (heap (snd (init RNMSAL this w)) r)"
  by (simp add: init_def split: sum.splits)

lemma init_success_flag:
  "init RNMSAL this w = (Inr x, w1) \<Longrightarrow> isInitialized (heap w1 this)"
  by (auto simp: init_def split: if_splits sum.splits)

lemma init_failure_flag:
  "\<not> isInitialized (heap w r) \<Longrightarrow> isl (fst (init RNMSAL this w)) \<Longrightarrow>
   \<not> isInitialized (heap (snd (init RNMSAL this w)) r)"
  by (auto simp: init_def split: if_splits sum.splits)

lemma init_other_flag:
  "r \<noteq> this \<Longrightarrow> heap (snd (init RNMSAL this w)) r = heap w r"
  by (simp add: init_def split: sum.splits)

lemma guarded_heap:
  "heap (snd (acquireToken RNMSAL this ip w)) = heap w"
  "heap (snd (acquireTokenSilent RNMSAL this sp w)) = heap w"
  "heap (snd (getAccounts RNMSAL this w)) = heap w"
  "heap (snd (getAccount RNMSAL this ident w)) = heap w"
  "heap (snd (removeAccount RNMSAL this acct w)) = heap w"
  "heap (snd (signOut RNMSAL os this so w)) = heap w"
  by (simp_all add: acquireToken_def acquireTokenSilent_def getAccounts_def getAccount_def
      removeAccount_def signOut_def Platform_select_def split: sum.splits)

lemma invoke_heap_other:
  "snd c \<noteq> Call_init \<Longrightarrow> heap (snd (invoke RNMSAL os c w)) = heap w"
  by (cases "snd c") (simp_all add: invoke_def guarded_heap)

lemma invoke_keeps_flag:
  "isInitialized (heap w r) \<Longrightarrow> isInitialized (heap (snd (invoke RNMSAL os c w)) r)"
  by (cases "snd c") (simp_all add: invoke_def guarded_heap init_keeps_flag)

lemma run_keeps_flag:
  "isInitialized (heap w r) \<Longrightarrow> isInitialized (heap (snd (run RNMSAL os script w)) r)"
proof (induction script arbitrary: w)
  case Nil
  then show ?case by simp
next
  case (Cons c cs)
  have "isInitialized (heap (snd (invoke RNMSAL os c w)) r)"
    using Cons.prems by (rule invoke_keeps_flag)
  then have "isInitialized (heap (snd (run RNMSAL os cs (snd (invoke RNMSAL os c w)))) r)"
    by (rule Cons.IH)
  then show ?case by (simp add: split_beta)
qed

lemma length_run [simp]: "length (fst (run RNMSAL os script w)) = length script"
  by (induction script arbitrary: w) (simp_all add: split_beta)

lemma invoke_guard:
  assumes "\<not> isInitialized (heap w r)" and "c \<noteq> Call_init"
  shows "invoke RNMSAL os (r, c) w = (Inl (new_Error not_initialized_message), w)"
  using assms
  by (cases c)
    (simp_all add: invoke_def settled_def acquireToken_def acquireTokenSilent_def
      getAccounts_def getAccount_def removeAccount_def signOut_def validateIsInitialized_false)

lemma invoke_stays_uninitialized:
  assumes "\<not> isInitialized (heap w r)"
    and "c = (r, Call_init) \<longrightarrow> isl (fst (invoke RNMSAL os c w))"
  shows "\<not> isInitialized (heap (snd (invoke RNMSAL os c w)) r)"
proof (cases "snd c = Call_init")
  case False
  then show ?thesis using assms(1) by (simp add: invoke_heap_other)
next
  case True
  show ?thesis
  proof (cases "fst c = r")
    case False
    then show ?thesis using True assms(1) by (simp add: invoke_def init_other_flag)
  next
    case same: True
    then have "c = (r, Call_init)" using True by (simp add: prod_eq_iff)
    then show ?thesis using assms by (simp add: invoke_def init_failure_flag)
  qed
qed

lemma run_stays_uninitialized:
  assumes "\<not> isInitialized (heap w r)"
    and "\<forall>i < length script. script ! i = (r, Call_init) \<longrightarrow>
           isl (fst (run RNMSAL os script w) ! i)"
  shows "\<not> isInitialized (heap (snd (run RNMSAL os script w)) r)"
  using assms
proof (induction script arbitrary: w)
  case Nil
  then show ?case by simp
next
  case (Cons c cs)
  let ?w1 = "snd (invoke RNMSAL os c w)"
  have head: "c = (r, Call_init) \<longrightarrow> isl (fst (invoke RNMSAL os c w))"
    using Cons.prems(2) by (auto simp: split_beta)
  have flag: "\<not> isInitialized (heap ?w1 r)"
    using Cons.prems(1) head by (rule invoke_stays_uninitialized)
  have tail: "\<forall>i < length cs. cs ! i = (r, Call_init) \<longrightarrow> isl (fst (run RNMSAL os cs ?w1) ! i)"
  proof (intro allI impI)
    fix i
    assume i: "i < length cs" and at: "cs ! i = (r, Call_init)"
    have "Suc i < length (c # cs)" using i by simp
    moreover have "(c # cs) ! Suc i = (r, Call_init)" using at by simp
    ultimately have "isl (fst (run RNMSAL os (c # cs) w) ! Suc i)"
      using Cons.prems(2) by blast
    then show "isl (fst (run RNMSAL os cs ?w1) ! i)" by (simp add: split_beta)
  qed
  have "\<not> isInitialized (heap (snd (run RNMSAL os cs ?w1)) r)"
    using flag tail by (rule Cons.IH)
  then show ?case by (simp add: split_beta)
qed

lemma times_set_initialized:
  "isInitialized (heap w r) \<Longrightarrow> times_set RNMSAL os r script w = 0"
  by (induction script arbitrary: w) (simp_all add: invoke_keeps_flag)

lemma times_set_le_1: "times_set RNMSAL os r script w \<le> 1"
  by (induction script arbitrary: w) (auto simp: times_set_initialized)

lemma invoke_sets_flag:
  assumes "\<not> isInitialized (heap w r)"
    and "isInitialized (heap (snd (invoke RNMSAL os c w)) r)"
  shows "c = (r, Call_init) \<and>
         RNMSAL_createPublicClientApplication RNMSAL (calls w) (config (heap w r)) = Inr ()"
proof -
  have init: "snd c = Call_init"
  proof (rule ccontr)
    assume "snd c \<noteq> Call_init"
    then have "heap (snd (invoke RNMSAL os c w)) = heap w" by (rule invoke_heap_other)
    then show False using assms by simp
  qed
  have same: "fst c = r"
  proof (rule ccontr)
    assume "fst c \<noteq> r"
    then have "heap (snd (init RNMSAL (fst c) w)) r = heap w r" by (simp add: init_other_flag)
    then show False using assms init by (simp add: invoke_def)
  qed
  have "isInitialized (heap (snd (init RNMSAL r w)) r)"
    using assms(2) init same by (simp add: invoke_def)
  then have "RNMSAL_createPublicClientApplication RNMSAL (calls w) (config (heap w r)) = Inr ()"
    using assms(1) by (auto simp: init_def split: sum.splits)
  then show ?thesis using init same by (simp add: prod_eq_iff)
qed

section \<open>The initialization guard\<close>

text \<open>
  C1. Take an object whose flag is false, as it is after construction, and any sequence of
  calls, on this or on other objects, in which every \<^verbatim>\<open>init\<close> on this object was
  rejected. Then every method other than \<^verbatim>\<open>init\<close>, called on the object next, is
  rejected with the error of \<^verbatim>\<open>validateIsInitialized\<close> (the failure the specification
  names NotInitializedError: an \<^verbatim>\<open>Error\<close> with the message of the guard), and the
  world is unchanged: the native module has received no call.
\<close>

theorem not_initialized_guard:
  assumes "\<not> isInitialized (heap w r)"
    and "run RNMSAL os script w = (outs, w1)"
    and "\<forall>i < length script. script ! i = (r, Call_init) \<longrightarrow> isl (outs ! i)"
    and "c \<noteq> Call_init"
  shows "invoke RNMSAL os (r, c) w1 = (Inl (new_Error not_initialized_message), w1) \<and>
         calls (snd (invoke RNMSAL os (r, c) w1)) = calls w1"
proof -
  have outs: "outs = fst (run RNMSAL os script w)" and w1: "w1 = snd (run RNMSAL os script w)"
    using assms(2) by simp_all
  have "\<not> isInitialized (heap w1 r)"
    unfolding w1 using assms(1) assms(3)[unfolded outs] by (rule run_stays_uninitialized)
  then have "invoke RNMSAL os (r, c) w1 = (Inl (new_Error not_initialized_message), w1)"
    using assms(4) by (rule invoke_guard)
  then show ?thesis by simp
qed

lemma example_run_rejected:
  "run (example_native True) android [(0, Call_getAccounts), (0, Call_init)] example_fresh =
     ([Inl (new_Error not_initialized_message),
       Inl (new_Error (initialization_failed_message ''no broker''))],
      called (CreatePublicClientApplication ''abc'') example_fresh)"
  by (simp add: example_fresh_def example_world_def example_native_def
      new_PublicClientApplication_def invoke_def settled_def getAccounts_def init_def
      validateIsInitialized_def not_initialized_message_def initialization_failed_message_def
      error_text_def)

theorem not_initialized_guard_witness:
  "\<not> isInitialized (heap example_fresh 0) \<and>
   invoke (example_native True) android (0, Call_acquireToken [''read''])
     (called (CreatePublicClientApplication ''abc'') example_fresh) =
   (Inl (new_Error not_initialized_message),
    called (CreatePublicClientApplication ''abc'') example_fresh)"
proof -
  have fresh: "\<not> isInitialized (heap example_fresh 0)"
    by (simp add: example_fresh_def new_PublicClientApplication_def)
  have rejected:
    "\<forall>i < length [(0::nat, Call_getAccounts), (0, Call_init)].
       [(0, Call_getAccounts), (0, Call_init)] ! i = (0, Call_init) \<longrightarrow>
       isl ([Inl (new_Error not_initialized_message),
             Inl (new_Error (initialization_failed_message ''no broker''))] ! i)"
    by (simp add: All_less_Suc)
  have other: "Call_acquireToken [''read''] \<noteq> Call_init" by simp
  show ?thesis
    using fresh not_initialized_guard [OF fresh example_run_rejected rejected other]
    by simp
qed

section \<open>init\<close>

lemma example_fresh_calls: "calls example_fresh = []"
  by (simp add: example_fresh_def example_world_def new_PublicClientApplication_def)

lemma example_fresh_obj: "heap example_fresh 0 = \<lparr>isInitialized = False, config = ''abc''\<rparr>"
  by (simp add: example_fresh_def new_PublicClientApplication_def)

lemma example_init_ok:
  "init (example_native False) 0 example_fresh =
     (Inr 0,
      (called (CreatePublicClientApplication ''abc'') example_fresh)
        \<lparr>heap := (heap example_fresh)(0 := \<lparr>isInitialized = True, config = ''abc''\<rparr>)\<rparr>)"
  by (simp add: example_fresh_def example_world_def example_native_def
      new_PublicClientApplication_def init_def)

text \<open>
  C2. When \<^verbatim>\<open>init\<close> is called on an object whose flag is false and resolves, a second
  \<^verbatim>\<open>init\<close> on the object resolves with the object and leaves the world as it is. The
  two calls together have sent the native module one call, the setup with the stored
  configuration.
\<close>

theorem init_twice_one_setup:
  assumes "\<not> isInitialized (heap w this)"
    and "init RNMSAL this w = (Inr x, w1)"
  shows "init RNMSAL this w1 = (Inr this, w1) \<and>
         calls (snd (init RNMSAL this w1)) =
           calls w @ [CreatePublicClientApplication (config (heap w this))]"
proof -
  have flag: "isInitialized (heap w1 this)"
    using assms(2) by (rule init_success_flag)
  then have second: "init RNMSAL this w1 = (Inr this, w1)"
    by (simp add: init_def)
  have "calls w1 = calls w @ [CreatePublicClientApplication (config (heap w this))]"
    using assms by (auto simp: init_def split: sum.splits)
  then show ?thesis using second by simp
qed

theorem init_twice_one_setup_witness:
  "init (example_native False) 0 (snd (init (example_native False) 0 example_fresh)) =
     (Inr 0, snd (init (example_native False) 0 example_fresh)) \<and>
   calls (snd (init (example_native False) 0
            (snd (init (example_native False) 0 example_fresh)))) =
     [CreatePublicClientApplication ''abc'']"
proof -
  have fresh: "\<not> isInitialized (heap example_fresh 0)"
    by (simp add: example_fresh_def new_PublicClientApplication_def)
  show ?thesis
    using init_twice_one_setup [OF fresh example_init_ok]
    by (simp add: example_init_ok example_fresh_calls example_fresh_obj)
qed

text \<open>
  C3. When \<^verbatim>\<open>init\<close> is called on an object whose flag is false and the native
  module rejects the setup, \<^verbatim>\<open>init\<close> is rejected with an \<^verbatim>\<open>Error\<close> (the failure
  the specification names InitializationError) whose message has the message of the native
  module's error inside (or its string, when what was thrown is not an \<^verbatim>\<open>Error\<close>),
  and the flag is still false. The next \<^verbatim>\<open>init\<close> sends
  the setup to the native module again; when that one resolves, so does \<^verbatim>\<open>init\<close>, with
  the flag true.
\<close>

theorem init_failure_then_retry:
  assumes "\<not> isInitialized (heap w this)"
    and "RNMSAL_createPublicClientApplication RNMSAL (calls w) (config (heap w this)) = Inl error"
  shows "init RNMSAL this w =
           (Inl (ErrorInstance ''Error''
              (''Failed to initialize PublicClientApplication: '' @ error_text error @
               ''. Ensure the native MSAL module is properly linked and configured.'')),
            called (CreatePublicClientApplication (config (heap w this))) w) \<and>
         \<not> isInitialized (heap (snd (init RNMSAL this w)) this) \<and>
         calls (snd (init RNMSAL this (snd (init RNMSAL this w)))) =
           calls w @ [CreatePublicClientApplication (config (heap w this)),
                      CreatePublicClientApplication (config (heap w this))] \<and>
         (RNMSAL_createPublicClientApplication RNMSAL
            (calls w @ [CreatePublicClientApplication (config (heap w this))])
            (config (heap w this)) = Inr () \<longrightarrow>
          fst (init RNMSAL this (snd (init RNMSAL this w))) = Inr this \<and>
          isInitialized (heap (snd (init RNMSAL this (snd (init RNMSAL this w)))) this))"
proof -
  let ?c = "CreatePublicClientApplication (config (heap w this))"
  have first: "init RNMSAL this w =
      (Inl (ErrorInstance ''Error''
         (''Failed to initialize PublicClientApplication: '' @ error_text error @
          ''. Ensure the native MSAL module is properly linked and configured.'')),
       called ?c w)"
    using assms by (simp add: init_def new_Error_def)
  have w1: "snd (init RNMSAL this w) = called ?c w"
    using first by simp
  have flag: "\<not> isInitialized (heap (called ?c w) this)"
    using assms(1) by simp
  have retry: "calls (snd (init RNMSAL this (called ?c w))) = calls w @ [?c, ?c]"
    using flag by (simp add: init_def split: sum.splits)
  have ok: "RNMSAL_createPublicClientApplication RNMSAL (calls w @ [?c]) (config (heap w this))
              = Inr () \<longrightarrow>
            fst (init RNMSAL this (called ?c w)) = Inr this \<and>
            isInitialized (heap (snd (init RNMSAL this (called ?c w))) this)"
    using flag by (simp add: init_def)
  show ?thesis
    unfolding w1 using first flag retry ok by simp
qed

theorem init_failure_then_retry_witness:
  "init (example_native True) 0 example_fresh =
     (Inl (ErrorInstance ''Error''
        (''Failed to initialize PublicClientApplication: no broker'' @
         ''. Ensure the native MSAL module is properly linked and configured.'')),
      called (CreatePublicClientApplication ''abc'') example_fresh) \<and>
   \<not> isInitialized (heap (snd (init (example_native True) 0 example_fresh)) 0) \<and>
   fst (init (example_native True) 0 (snd (init (example_native True) 0 example_fresh))) = Inr 0 \<and>
   isInitialized
     (heap (snd (init (example_native True) 0 (snd (init (example_native True) 0 example_fresh)))) 0)"
proof -
  have fresh: "\<not> isInitialized (heap example_fresh 0)"
    by (simp add: example_fresh_def new_PublicClientApplication_def)
  have rejected:
    "RNMSAL_createPublicClientApplication (example_native True) (calls example_fresh)
       (config (heap example_fresh 0)) = Inl (ErrorInstance ''Error'' ''no broker'')"
    by (simp add: example_native_def example_fresh_def example_world_def
        new_PublicClientApplication_def)
  have again:
    "RNMSAL_createPublicClientApplication (example_native True)
       (calls example_fresh @ [CreatePublicClientApplication (config (heap example_fresh 0))])
       (config (heap example_fresh 0)) = Inr ()"
    by (simp add: example_native_def)
  have cfg: "config (heap example_fresh 0) = ''abc''"
    by (simp add: example_fresh_def new_PublicClientApplication_def)
  note at_example = init_failure_then_retry [OF fresh rejected]
  have first:
    "init (example_native True) 0 example_fresh =
       (Inl (ErrorInstance ''Error''
          (''Failed to initialize PublicClientApplication: no broker'' @
           ''. Ensure the native MSAL module is properly linked and configured.'')),
        called (CreatePublicClientApplication ''abc'') example_fresh)"
    using at_example by (simp add: error_text_def cfg)
  have flag: "\<not> isInitialized (heap (snd (init (example_native True) 0 example_fresh)) 0)"
    using at_example by blast
  have retry:
    "fst (init (example_native True) 0 (snd (init (example_native True) 0 example_fresh)))
       = Inr 0 \<and>
     isInitialized
       (heap (snd (init (example_native True) 0
          (snd (init (example_native True) 0 example_fresh)))) 0)"
    using at_example again by blast
  show ?thesis
    using first flag retry by blast
qed

text \<open>
  C7. \<^verbatim>\<open>init\<close> resolves with the object it was called on, whenever the flag of the
  object is already true or the native module resolves the setup; and whenever
  \<^verbatim>\<open>init\<close> resolves, it is with that object.
\<close>

theorem init_returns_this:
  "(isInitialized (heap w this) \<or>
    RNMSAL_createPublicClientApplication RNMSAL (calls w) (config (heap w this)) = Inr ()
      \<longrightarrow> fst (init RNMSAL this w) = Inr this) \<and>
   (\<forall>x. fst (init RNMSAL this w) = Inr x \<longrightarrow> x = this)"
  by (auto simp: init_def split: sum.splits)

theorem init_returns_this_witness:
  "fst (init (example_native False) 0 example_fresh) = Inr 0 \<and>
   fst (init (example_native False) 0 (snd (init (example_native False) 0 example_fresh))) = Inr 0"
proof -
  have resolves:
    "RNMSAL_createPublicClientApplication (example_native False) (calls example_fresh)
       (config (heap example_fresh 0)) = Inr ()"
    by (simp add: example_native_def)
  have ready: "isInitialized (heap (snd (init (example_native False) 0 example_fresh)) 0)"
    by (simp add: example_init_ok)
  show ?thesis
    using init_returns_this [of example_fresh 0 "example_native False"]
      init_returns_this [of "snd (init (example_native False) 0 example_fresh)" 0
        "example_native False"]
      resolves ready
    by simp
qed

section \<open>Forwarding\<close>

lemma ready_after_init_and_run:
  assumes "init RNMSAL this w0 = (Inr x, w1)"
    and "run RNMSAL os script w1 = (outs, w)"
  shows "isInitialized (heap w this)"
proof -
  have "isInitialized (heap w1 this)"
    using assms(1) by (rule init_success_flag)
  then have "isInitialized (heap (snd (run RNMSAL os script w1)) this)"
    by (rule run_keeps_flag)
  then show ?thesis using assms(2) by simp
qed

lemma example_ready: "isInitialized (heap (snd (init (example_native False) 0 example_fresh)) 0)"
  by (simp add: example_init_ok)

lemma example_getAccounts: "RNMSAL_getAccounts (example_native flaky) history = Inr []"
  by (simp add: example_native_def)

lemma example_removeAccount: "RNMSAL_removeAccount (example_native flaky) history acct = Inr True"
  by (simp add: example_native_def)

lemma example_ready_run:
  "run (example_native False) os [(0, Call_getAccounts)]
     (snd (init (example_native False) 0 example_fresh)) =
   ([Inr (Returned_accounts [])],
    called GetAccounts (snd (init (example_native False) 0 example_fresh)))"
  by (simp add: invoke_def settled_def getAccounts_def validateIsInitialized_true
      example_ready example_getAccounts)

lemma example_init_ok_pair:
  "init (example_native False) 0 example_fresh =
     (Inr 0, snd (init (example_native False) 0 example_fresh))"
  by (simp add: example_init_ok)

text \<open>
  C4. After \<^verbatim>\<open>init\<close> has resolved on an object, and after any further sequence of
  calls, \<^verbatim>\<open>acquireToken\<close> and \<^verbatim>\<open>acquireTokenSilent\<close> on the object send their
  \<open>params\<close> to the native module as they are, and settle exactly as the native module's
  promise does: with its result, with nothing when it resolves with nothing, with what it
  throws when it rejects.
\<close>

theorem acquire_forwards:
  assumes "init RNMSAL this w0 = (Inr x, w1)"
    and "run RNMSAL os script w1 = (outs, w)"
  shows "acquireToken RNMSAL this ip w =
           (RNMSAL_acquireToken RNMSAL (calls w) ip, called (AcquireToken ip) w) \<and>
         acquireTokenSilent RNMSAL this sp w =
           (RNMSAL_acquireTokenSilent RNMSAL (calls w) sp, called (AcquireTokenSilent sp) w)"
proof -
  have "isInitialized (heap w this)"
    using assms by (rule ready_after_init_and_run)
  then show ?thesis
    by (simp add: acquireToken_def acquireTokenSilent_def validateIsInitialized_true)
qed

theorem acquire_forwards_witness:
  "fst (acquireToken (example_native False) 0 [''read'']
         (called GetAccounts (snd (init (example_native False) 0 example_fresh))))
     = Inr (Some ''tok1'') \<and>
   fst (acquireToken (example_native False) 0 []
         (called GetAccounts (snd (init (example_native False) 0 example_fresh))))
     = Inr None \<and>
   fst (acquireTokenSilent (example_native False) 0 ''u1''
         (called GetAccounts (snd (init (example_native False) 0 example_fresh))))
     = Inl (ErrorInstance ''MSALError'' ''no cached session'') \<and>
   calls (snd (acquireToken (example_native False) 0 [''read'']
         (called GetAccounts (snd (init (example_native False) 0 example_fresh)))))
     = [CreatePublicClientApplication ''abc'', GetAccounts, AcquireToken [''read'']]"
proof -
  note at_example = acquire_forwards [OF example_init_ok_pair example_ready_run [of android]]
  have granted:
    "fst (acquireToken (example_native False) 0 [''read'']
           (called GetAccounts (snd (init (example_native False) 0 example_fresh))))
       = Inr (Some ''tok1'')"
    using at_example [of "[''read'']" "''u1''"] by (simp add: example_native_def)
  have aborted:
    "fst (acquireToken (example_native False) 0 []
           (called GetAccounts (snd (init (example_native False) 0 example_fresh))))
       = Inr None"
    using at_example [of "[]" "''u1''"] by (simp add: example_native_def)
  have rejected:
    "fst (acquireTokenSilent (example_native False) 0 ''u1''
           (called GetAccounts (snd (init (example_native False) 0 example_fresh))))
       = Inl (ErrorInstance ''MSALError'' ''no cached session'')"
    using at_example [of "[''read'']" "''u1''"] by (simp add: example_native_def)
  have sent:
    "calls (snd (acquireToken (example_native False) 0 [''read'']
           (called GetAccounts (snd (init (example_native False) 0 example_fresh)))))
       = [CreatePublicClientApplication ''abc'', GetAccounts, AcquireToken [''read'']]"
    using at_example [of "[''read'']" "''u1''"]
    by (simp add: example_init_ok example_fresh_calls)
  show ?thesis
    using granted aborted rejected sent by blast
qed

section \<open>signOut\<close>

text \<open>
  C5. After \<^verbatim>\<open>init\<close> has resolved on an object, and after any further sequence of
  calls, \<^verbatim>\<open>signOut\<close> on iOS sends \<open>params\<close> to the native module's
  \<^verbatim>\<open>signout\<close>; on every other platform it sends \<open>params.account\<close> to the native
  module's \<^verbatim>\<open>removeAccount\<close>. Either way it settles as the native module's promise
  does.
\<close>

theorem signOut_dispatch:
  assumes "init RNMSAL this w0 = (Inr x, w1)"
    and "run RNMSAL os script w1 = (outs, w)"
  shows "(os = ios \<longrightarrow>
            signOut RNMSAL os this params w =
              (RNMSAL_signout RNMSAL (calls w) params, called (Signout params) w)) \<and>
         (os \<noteq> ios \<longrightarrow>
            signOut RNMSAL os this params w =
              (RNMSAL_removeAccount RNMSAL (calls w) (account params),
               called (RemoveAccount (account params)) w))"
proof -
  have "isInitialized (heap w this)"
    using assms by (rule ready_after_init_and_run)
  then show ?thesis
    by (simp add: signOut_def Platform_select_def validateIsInitialized_true)
qed

theorem signOut_dispatch_witness:
  "signOut (example_native False) ios 0 \<lparr>account = ''u1'', signoutFromBrowser = Some True\<rparr>
     (called GetAccounts (snd (init (example_native False) 0 example_fresh))) =
   (Inr False,
    called (Signout \<lparr>account = ''u1'', signoutFromBrowser = Some True\<rparr>)
      (called GetAccounts (snd (init (example_native False) 0 example_fresh)))) \<and>
   signOut (example_native False) android 0 \<lparr>account = ''u1'', signoutFromBrowser = Some True\<rparr>
     (called GetAccounts (snd (init (example_native False) 0 example_fresh))) =
   (Inr True,
    called (RemoveAccount ''u1'')
      (called GetAccounts (snd (init (example_native False) 0 example_fresh))))"
proof -
  have on_ios:
    "signOut (example_native False) ios 0 \<lparr>account = ''u1'', signoutFromBrowser = Some True\<rparr>
       (called GetAccounts (snd (init (example_native False) 0 example_fresh))) =
     (Inr False,
      called (Signout \<lparr>account = ''u1'', signoutFromBrowser = Some True\<rparr>)
        (called GetAccounts (snd (init (example_native False) 0 example_fresh))))"
    using signOut_dispatch [OF example_init_ok_pair example_ready_run [of ios],
        of "\<lparr>account = ''u1'', signoutFromBrowser = Some True\<rparr>"]
    by (simp add: example_native_def)
  have on_android:
    "signOut (example_native False) android 0
       \<lparr>account = ''u1'', signoutFromBrowser = Some True\<rparr>
       (called GetAccounts (snd (init (example_native False) 0 example_fresh))) =
     (Inr True,
      called (RemoveAccount ''u1'')
        (called GetAccounts (snd (init (example_native False) 0 example_fresh))))"
    using signOut_dispatch [OF example_init_ok_pair example_ready_run [of android],
        of "\<lparr>account = ''u1'', signoutFromBrowser = Some True\<rparr>"]
    by (simp add: example_native_def)
  show ?thesis
    using on_ios on_android by blast
qed

text \<open>
  C10. On every platform other than iOS, \<^verbatim>\<open>signOut\<close> reads nothing of \<open>params\<close>
  but \<open>params.account\<close>: for two \<open>params\<close> with the same account, whatever their
  other fields, and the same native module, object and world, \<^verbatim>\<open>signOut\<close> settles
  in the same way and leaves the same world, with the same calls sent.
\<close>

theorem signOut_reads_account_only:
  assumes "os \<noteq> ios"
    and "account p1 = account p2"
  shows "signOut RNMSAL os this p1 w = signOut RNMSAL os this p2 w"
  using assms by (simp add: signOut_def Platform_select_def split: sum.splits)

theorem signOut_reads_account_only_witness:
  "signOut (example_native False) android 0
     \<lparr>account = ''u1'', signoutFromBrowser = Some True\<rparr>
     (snd (init (example_native False) 0 example_fresh)) =
   signOut (example_native False) android 0
     \<lparr>account = ''u1'', signoutFromBrowser = None\<rparr>
     (snd (init (example_native False) 0 example_fresh)) \<and>
   fst (signOut (example_native False) android 0
     \<lparr>account = ''u1'', signoutFromBrowser = None\<rparr>
     (snd (init (example_native False) 0 example_fresh))) = Inr True"
proof -
  have other: "android \<noteq> ios" by simp
  have same:
    "account \<lparr>account = ''u1'', signoutFromBrowser = Some True\<rparr> =
     account \<lparr>account = ''u1'', signoutFromBrowser = None\<rparr>"
    by simp
  have result:
    "fst (signOut (example_native False) android 0
       \<lparr>account = ''u1'', signoutFromBrowser = None\<rparr>
       (snd (init (example_native False) 0 example_fresh))) = Inr True"
    by (simp add: signOut_def Platform_select_def validateIsInitialized_true example_ready
        example_removeAccount)
  show ?thesis
    using signOut_reads_account_only [OF other same] result by blast
qed

section \<open>The life of the flag\<close>

text \<open>
  C6. The flag of an object is false after construction. A call makes it true only when
  the call is \<^verbatim>\<open>init\<close> on this object and the native module has resolved the setup.
  Over any sequence of calls it goes from false to true at most once, and after an
  \<^verbatim>\<open>init\<close> that resolved it is true after every further sequence of calls, on this or on
  other objects, whatever the native module answers to them.
\<close>

theorem flag_set_once_never_reset:
  "\<not> isInitialized (heap (new_PublicClientApplication cfg r w0) r) \<and>
   (\<not> isInitialized (heap w r) \<and> isInitialized (heap (snd (invoke RNMSAL os c w)) r) \<longrightarrow>
      c = (r, Call_init) \<and>
      RNMSAL_createPublicClientApplication RNMSAL (calls w) (config (heap w r)) = Inr ()) \<and>
   times_set RNMSAL os r script w \<le> 1 \<and>
   (init RNMSAL r w = (Inr x, w1) \<longrightarrow>
      isInitialized (heap (snd (run RNMSAL os script w1)) r))"
proof -
  have constructed: "\<not> isInitialized (heap (new_PublicClientApplication cfg r w0) r)"
    by (simp add: new_PublicClientApplication_def)
  have only_init:
    "\<not> isInitialized (heap w r) \<and> isInitialized (heap (snd (invoke RNMSAL os c w)) r) \<longrightarrow>
       c = (r, Call_init) \<and>
       RNMSAL_createPublicClientApplication RNMSAL (calls w) (config (heap w r)) = Inr ()"
    using invoke_sets_flag [of w r RNMSAL os c] by blast
  have once: "times_set RNMSAL os r script w \<le> 1"
    by (rule times_set_le_1)
  have kept:
    "init RNMSAL r w = (Inr x, w1) \<longrightarrow> isInitialized (heap (snd (run RNMSAL os script w1)) r)"
    using init_success_flag [of RNMSAL r w x w1] run_keeps_flag [of w1 r RNMSAL os script]
    by blast
  show ?thesis
    using constructed only_init once kept by blast
qed

lemma example_flag_set:
  "\<not> isInitialized (heap example_fresh 0) \<and>
   isInitialized (heap (snd (invoke (example_native False) android (0, Call_init) example_fresh)) 0)"
  by (simp add: invoke_def example_init_ok example_fresh_obj)

theorem flag_set_once_never_reset_witness:
  "RNMSAL_createPublicClientApplication (example_native False) (calls example_fresh)
     (config (heap example_fresh 0)) = Inr () \<and>
   fst (run (example_native False) android
          [(0, Call_acquireTokenSilent ''u1''), (0, Call_init), (1, Call_getAccounts)]
          (snd (init (example_native False) 0 example_fresh))) =
     [Inl (ErrorInstance ''MSALError'' ''no cached session''),
      Inr (Returned_this 0),
      Inl (new_Error not_initialized_message)] \<and>
   isInitialized
     (heap (snd (run (example_native False) android
          [(0, Call_acquireTokenSilent ''u1''), (0, Call_init), (1, Call_getAccounts)]
          (snd (init (example_native False) 0 example_fresh)))) 0)"
proof -
  note at_example =
    flag_set_once_never_reset [of "''abc''" 0 example_world example_fresh "example_native False"
      android "(0, Call_init)"
      "[(0, Call_acquireTokenSilent ''u1''), (0, Call_init), (1, Call_getAccounts)]"
      0 "snd (init (example_native False) 0 example_fresh)"]
  have confirmed:
    "RNMSAL_createPublicClientApplication (example_native False) (calls example_fresh)
       (config (heap example_fresh 0)) = Inr ()"
    using at_example example_flag_set by blast
  have kept:
    "isInitialized
       (heap (snd (run (example_native False) android
            [(0, Call_acquireTokenSilent ''u1''), (0, Call_init), (1, Call_getAccounts)]
            (snd (init (example_native False) 0 example_fresh)))) 0)"
    using at_example example_init_ok_pair by blast
  have "heap example_fresh 1 = \<lparr>isInitialized = False, config = []\<rparr>"
    by (simp add: example_fresh_def example_world_def new_PublicClientApplication_def)
  then have other:
    "\<not> isInitialized (heap (snd (init (example_native False) 0 example_fresh)) 1)"
    by (simp add: init_other_flag)
  have silent:
    "RNMSAL_acquireTokenSilent (example_native False) history ''u1'' =
       Inl (ErrorInstance ''MSALError'' ''no cached session'')" for history
    by (simp add: example_native_def)
  have outcomes:
    "fst (run (example_native False) android
            [(0, Call_acquireTokenSilent ''u1''), (0, Call_init), (1, Call_getAccounts)]
            (snd (init (example_native False) 0 example_fresh))) =
       [Inl (ErrorInstance ''MSALError'' ''no cached session''),
        Inr (Returned_this 0),
        Inl (new_Error not_initialized_message)]"
    using example_ready other
    by (simp add: invoke_def settled_def acquireTokenSilent_def getAccounts_def init_def
        validateIsInitialized_true validateIsInitialized_false silent)
  show ?thesis
    using confirmed outcomes kept by blast
qed

section \<open>The missing native module\<close>

text \<open>
  C8. When \<^verbatim>\<open>NativeModules.RNMSAL\<close> is nothing, evaluating \<^verbatim>\<open>nativeModule.ts\<close> throws
  an \<^verbatim>\<open>Error\<close> that names the module and says how to link it. A program that imports
  the facade then stops at the import, whatever calls it would have made: no call is made,
  none reaches a native module, and the world is as it was. When the module is there, it is
  exported as it is.
\<close>

theorem native_module_missing:
  "nativeModule None =
     Inl (ErrorInstance ''Error''
       (''Native module RNMSAL is not available. '' @
        ''Please ensure you have linked the native module correctly. '' @
        ''Run: npx react-native link react-native-msal (or use Expo config plugin for Expo projects)'')) \<and>
   program None os script w =
     (Inl (ErrorInstance ''Error''
        (''Native module RNMSAL is not available. '' @
         ''Please ensure you have linked the native module correctly. '' @
         ''Run: npx react-native link react-native-msal (or use Expo config plugin for Expo projects)'')),
      w) \<and>
   nativeModule (Some RNMSAL) = Inr RNMSAL"
  by (simp add: nativeModule_def program_def new_Error_def)

section \<open>The classes of the facade's errors\<close>

text \<open>
  C9. What \<^verbatim>\<open>validateIsInitialized\<close> throws and what a rejected \<^verbatim>\<open>init\<close> throws are
  both instances of the class \<^verbatim>\<open>Error\<close> itself: they have the same class and differ in
  their messages only.
\<close>

theorem facade_errors_share_class:
  assumes "validateIsInitialized obj = Inl e1"
    and "init RNMSAL this w = (Inl e2, w1)"
  shows "is_ErrorInstance e1 \<and> is_ErrorInstance e2 \<and>
         ctor e1 = ''Error'' \<and> ctor e2 = ''Error'' \<and> message e1 \<noteq> message e2"
proof -
  have e1: "e1 = ErrorInstance ''Error'' not_initialized_message"
    using assms(1)
    by (auto simp: validateIsInitialized_def new_Error_def not_initialized_message_def
        split: if_splits)
  obtain m where e2: "e2 = ErrorInstance ''Error'' (initialization_failed_message m)"
    using assms(2)
    by (auto simp: init_def new_Error_def initialization_failed_message_def
        split: if_splits sum.splits)
  have "not_initialized_message \<noteq> initialization_failed_message m"
    by (simp add: not_initialized_message_def initialization_failed_message_def)
  then show ?thesis using e1 e2 by simp
qed

theorem facade_errors_share_class_witness:
  "validateIsInitialized (heap example_fresh 0) =
     Inl (ErrorInstance ''Error'' not_initialized_message) \<and>
   fst (init (example_native True) 0 example_fresh) =
     Inl (ErrorInstance ''Error'' (initialization_failed_message ''no broker'')) \<and>
   not_initialized_message \<noteq> initialization_failed_message ''no broker''"
proof -
  have guard:
    "validateIsInitialized (heap example_fresh 0) =
       Inl (ErrorInstance ''Error'' not_initialized_message)"
    by (simp add: validateIsInitialized_false example_fresh_obj new_Error_def)
  have rejected:
    "init (example_native True) 0 example_fresh =
       (Inl (ErrorInstance ''Error'' (initialization_failed_message ''no broker'')),
        called (CreatePublicClientApplication ''abc'') example_fresh)"
    by (simp add: init_def example_fresh_obj example_fresh_calls example_native_def
        new_Error_def error_text_def initialization_failed_message_def)
  show ?thesis
    using facade_errors_share_class [OF guard rejected] guard rejected by simp
qed

end
